theory Spec2Isabelle
  imports Complex_Main "HOL-Library.Char_ord" "HOL-Library.List_Lexorder"
    "HOL-Library.Option_ord" "HOL-Library.Product_Lexorder"
begin

section \<open>Values and the Python runtime\<close>

text \<open>
  Python values that the scheduler and the store exchange.  A float is idealised as a
  real number.  A timezone-aware \<open>datetime\<close> is its instant, counted in microseconds,
  together with the UTC offset it is written with; the range limits of \<open>datetime\<close>
  (years 1 to 9999) are not part of the model.  A \<open>datetime\<close> that a caller passes or
  that \<open>fromisoformat\<close> returns may also be naive: a wall-clock reading without an offset.
  A \<open>dict\<close> literal is an association list in the order the source writes its keys.
  An \<open>ObjectId\<close> is an abstract identity.
\<close>

record datetime =
  instant :: int
  utcoffset :: int

datatype raw_datetime = Naive int | Aware datetime

type_synonym ObjectId = nat

datatype pyval =
    PNone
  | PInt int
  | PFloat real
  | PStr string
  | PDatetime datetime
  | PList "pyval list"
  | PDict "(string \<times> pyval) list"

type_synonym pydict = "(string \<times> pyval) list"

datatype error = ValueError | HTTPException nat

text \<open>
  What the repository takes from the Python runtime and its libraries, and what no file
  of the repository defines: the character classes of \<open>str.strip\<close> and of the regular
  expressions \<open>\s\<close> and \<open>\w\<close>, \<open>str.lower\<close>, the \<open>datetime\<close> conversions, midnight
  of a day in the configured time zone, the \<open>ObjectId\<close> conversions of \<open>bson\<close>,
  \<open>json.dumps\<close> and SHA-256.  Every function
  of the model that needs one of them takes the runtime as its first argument.
\<close>

record runtime =
  isspace :: "char \<Rightarrow> bool"
  isword :: "char \<Rightarrow> bool"
  lower :: "string \<Rightarrow> string"
  fromisoformat :: "string \<Rightarrow> raw_datetime option"
  isoformat :: "datetime \<Rightarrow> string"
  datetime_str :: "raw_datetime \<Rightarrow> string"
  local_midnight :: "datetime \<Rightarrow> datetime"
  ObjectId_is_valid :: "string \<Rightarrow> bool"
  ObjectId_of :: "string \<Rightarrow> ObjectId"
  ObjectId_str :: "ObjectId \<Rightarrow> string"
  json_dumps :: "pyval \<Rightarrow> string"
  sha256_hexdigest :: "string \<Rightarrow> string"

definition timedelta_days :: "int \<Rightarrow> int" where
  "timedelta_days days = days * 86400000000"

text \<open>
  Adding a \<open>timedelta\<close> moves the instant and keeps the offset.  Aware values compare by
  their instants; \<open>min(a, b)\<close> and \<open>max(a, b)\<close> return their first argument when neither
  is smaller, respectively greater.
\<close>

definition plus_days :: "datetime \<Rightarrow> int \<Rightarrow> datetime" where
  "plus_days d days = d\<lparr>instant := instant d + timedelta_days days\<rparr>"

definition datetime_min :: "datetime \<Rightarrow> datetime \<Rightarrow> datetime" where
  "datetime_min a b = (if instant b < instant a then b else a)"

definition datetime_max :: "datetime \<Rightarrow> datetime \<Rightarrow> datetime" where
  "datetime_max a b = (if instant a < instant b then b else a)"

text \<open>
  Python's \<open>round\<close> rounds half to even: \<open>round(x)\<close> gives an integer,
  \<open>round(x, 2)\<close> the nearest multiple of one hundredth.
\<close>

definition py_round :: "real \<Rightarrow> int" where
  "py_round x =
     (let f = \<lfloor>x\<rfloor>; d = x - of_int f
      in if d < 1 / 2 then f
         else if 1 / 2 < d then f + 1
         else if even f then f else f + 1)"

definition py_round2 :: "real \<Rightarrow> real" where
  "py_round2 x = of_int (py_round (x * 100)) / 100"

section \<open>Hashing (app/utils/hash.py)\<close>

definition stable_hash :: "runtime \<Rightarrow> pyval \<Rightarrow> string" where
  "stable_hash R data = sha256_hexdigest R (json_dumps R data)"

section \<open>Term normalization (app/utils/normalize.py)\<close>

text \<open>
  \<open>str.strip()\<close> removes the leading and the trailing run of whitespace.  The pattern
  \<open>^[\W_]+|[\W_]+$\<close> matches the leading run and the trailing run of characters that are not
  word characters or are the underscore, and \<open>sub("", s)\<close> removes both; the pattern
  \<open>\s+\<close> matches each maximal run of whitespace, and \<open>sub(" ", s)\<close> puts one space in its
  place.
\<close>

definition strip_where :: "(char \<Rightarrow> bool) \<Rightarrow> string \<Rightarrow> string" where
  "strip_where P s = rev (dropWhile P (rev (dropWhile P s)))"

definition strip :: "runtime \<Rightarrow> string \<Rightarrow> string" where
  "strip R s = strip_where (isspace R) s"

function MULTI_SPACE_sub :: "runtime \<Rightarrow> string \<Rightarrow> string" where
  "MULTI_SPACE_sub R [] = []"
| "MULTI_SPACE_sub R (c # cs) =
     (if isspace R c then CHR '' '' # MULTI_SPACE_sub R (dropWhile (isspace R) cs)
      else c # MULTI_SPACE_sub R cs)"
  by pat_completeness auto
termination
  by (relation "measure (\<lambda>(R, s). length s)") (auto simp: le_imp_less_Suc length_dropWhile_le)

definition punct :: "runtime \<Rightarrow> char \<Rightarrow> bool" where
  "punct R c \<longleftrightarrow> \<not> isword R c \<or> c = CHR ''_''"

definition SURROUNDING_PUNCT_sub :: "runtime \<Rightarrow> string \<Rightarrow> string" where
  "SURROUNDING_PUNCT_sub R s = strip_where (punct R) s"

definition normalize_term :: "runtime \<Rightarrow> string \<Rightarrow> string" where
  "normalize_term R term =
     (let normalized = MULTI_SPACE_sub R (lower R (strip R term));
          normalized = SURROUNDING_PUNCT_sub R normalized
      in strip R (MULTI_SPACE_sub R normalized))"

section \<open>The document store\<close>

text \<open>
  A card of the \<open>vocabs\<close> collection is its \<open>_id\<close> and its fields.  Every writer of the
  collection (\<open>create_vocab\<close>, \<open>upsert_vocab_with_ai\<close>, \<open>import_payload\<close>) sets all of
  the fields below, so a stored card has them with these types; \<open>lastReviewedAt\<close> and
  \<open>lastReaddAt\<close> may hold \<open>None\<close>.  The field \<open>term\<close> is written \<open>term'\<close>, and
  the fields of a review log and of an event carry the prefixes \<open>log_\<close> and \<open>event_\<close>.
\<close>

record vocab_fields =
  term' :: string
  termNormalized :: string
  meanings :: "string list"
  ipa :: "string option"
  exampleEn :: "string option"
  exampleVi :: "string option"
  mnemonic :: "string option"
  tags :: "string list"
  collocations :: "string list"
  phrases :: "string list"
  wordFamily :: "(string \<times> string list) list"
  topics :: "string list"
  cefrLevel :: "string option"
  ieltsBand :: "real option"
  createdAt :: datetime
  updatedAt :: datetime
  easeFactor :: real
  intervalDays :: int
  repetitions :: int
  lapses :: int
  dueAt :: datetime
  lastReviewedAt :: "datetime option"
  readdCount :: int
  lastReaddAt :: "datetime option"

record vocab_doc =
  doc_id :: ObjectId
  doc_fields :: vocab_fields

record log_doc =
  log_vocabId :: ObjectId
  log_mode :: string
  log_questionType :: string
  log_grade :: int
  log_userAnswer :: "string option"
  log_isNearCorrect :: "bool option"
  log_createdAt :: datetime

record event_doc =
  event_type :: string
  event_payload :: pyval
  event_createdAt :: datetime

record store =
  vocabs :: "vocab_doc list"
  review_logs :: "log_doc list"
  events :: "event_doc list"

text \<open>
  \<open>find_one\<close> returns the first document that matches; \<open>insert_one\<close> appends a document
  under an identity that no document of the collection has; \<open>update_one\<close> with \<open>$set\<close>
  of all fields rewrites the first document with the given \<open>_id\<close>.  The store gives back
  a value as it was written.
\<close>

definition find_one_by_term :: "vocab_doc list \<Rightarrow> string \<Rightarrow> vocab_doc option" where
  "find_one_by_term vs t = find (\<lambda>d. termNormalized (doc_fields d) = t) vs"

definition find_one_by_id :: "vocab_doc list \<Rightarrow> ObjectId \<Rightarrow> vocab_doc option" where
  "find_one_by_id vs i = find (\<lambda>d. doc_id d = i) vs"

definition inserted_id :: "vocab_doc list \<Rightarrow> ObjectId" where
  "inserted_id vs = Suc (fold max (map doc_id vs) 0)"

definition insert_one :: "vocab_fields \<Rightarrow> vocab_doc list \<Rightarrow> vocab_doc list" where
  "insert_one f vs = vs @ [\<lparr>doc_id = inserted_id vs, doc_fields = f\<rparr>]"

fun update_one :: "ObjectId \<Rightarrow> vocab_fields \<Rightarrow> vocab_doc list \<Rightarrow> vocab_doc list" where
  "update_one i f [] = []"
| "update_one i f (d # ds) =
     (if doc_id d = i then d\<lparr>doc_fields := f\<rparr> # ds else d # update_one i f ds)"

section \<open>The sync merge engine (app/services/sync\_merge.py)\<close>

subsection \<open>The imported snapshot\<close>

text \<open>
  The records of an imported snapshot are JSON objects: any field may be missing
  (\<open>None\<close> below; a text, list or timestamp field may also be \<open>null\<close>), and a field that
  is present carries the type the export writes.  A timestamp arrives as a string or,
  when the caller passes one, as a \<open>datetime\<close>.
\<close>

datatype timeval = TDatetime raw_datetime | TStr string

record vocab_in =
  raw_id :: "string option"
  raw_term :: "string option"
  raw_termNormalized :: "string option"
  raw_meanings :: "string list option"
  raw_ipa :: "string option"
  raw_exampleEn :: "string option"
  raw_exampleVi :: "string option"
  raw_mnemonic :: "string option"
  raw_tags :: "string list option"
  raw_collocations :: "string list option"
  raw_phrases :: "string list option"
  raw_wordFamily :: "(string \<times> string list) list option"
  raw_topics :: "string list option"
  raw_cefrLevel :: "string option"
  raw_ieltsBand :: "real option"
  raw_createdAt :: "timeval option"
  raw_updatedAt :: "timeval option"
  raw_easeFactor :: "real option"
  raw_intervalDays :: "int option"
  raw_repetitions :: "int option"
  raw_lapses :: "int option"
  raw_dueAt :: "timeval option"
  raw_lastReviewedAt :: "timeval option"
  raw_readdCount :: "int option"
  raw_lastReaddAt :: "timeval option"

record log_in =
  rawlog_vocabId :: "string option"
  rawlog_mode :: "string option"
  rawlog_questionType :: "string option"
  rawlog_grade :: "int option"
  rawlog_userAnswer :: "string option"
  rawlog_isNearCorrect :: "bool option"
  rawlog_createdAt :: "timeval option"

record event_in =
  rawevent_type :: "string option"
  rawevent_payload :: "pyval option"
  rawevent_createdAt :: "timeval option"

record payload =
  schemaVersion :: string
  exportedAt :: datetime
  payload_vocabs :: "vocab_in list"
  payload_review_logs :: "log_in list"
  payload_events :: "event_in list"

record report =
  addedVocabs :: nat
  updatedVocabs :: nat
  addedLogs :: nat
  conflicts :: nat

subsection \<open>Truthiness and \<open>or\<close>\<close>

definition str_or :: "string option \<Rightarrow> string \<Rightarrow> string" where
  "str_or a b = (case a of Some s \<Rightarrow> if s \<noteq> [] then s else b | None \<Rightarrow> b)"

definition opt_truthy :: "string option \<Rightarrow> bool" where
  "opt_truthy a = (case a of Some s \<Rightarrow> s \<noteq> [] | None \<Rightarrow> False)"

definition or_None :: "string option \<Rightarrow> string option" where
  "or_None a = (if opt_truthy a then a else None)"

definition list_or_empty :: "'a list option \<Rightarrow> 'a list" where
  "list_or_empty a = (case a of Some xs \<Rightarrow> xs | None \<Rightarrow> [])"

definition time_truthy :: "timeval option \<Rightarrow> bool" where
  "time_truthy v = (case v of Some (TDatetime d) \<Rightarrow> True | Some (TStr s) \<Rightarrow> s \<noteq> [] | None \<Rightarrow> False)"

fun pyval_truthy :: "pyval \<Rightarrow> bool" where
  "pyval_truthy PNone = False"
| "pyval_truthy (PInt n) = (n \<noteq> 0)"
| "pyval_truthy (PFloat x) = (x \<noteq> 0)"
| "pyval_truthy (PStr s) = (s \<noteq> [])"
| "pyval_truthy (PDatetime d) = True"
| "pyval_truthy (PList xs) = (xs \<noteq> [])"
| "pyval_truthy (PDict kvs) = (kvs \<noteq> [])"

subsection \<open>Helpers\<close>

text \<open>
  \<open>value.replace(tzinfo=timezone.utc)\<close> when \<open>value.tzinfo is None\<close>, and \<open>value\<close>
  otherwise.
\<close>

fun replace_tzinfo_utc :: "raw_datetime \<Rightarrow> datetime" where
  "replace_tzinfo_utc (Naive wall) = \<lparr>instant = wall, utcoffset = 0\<rparr>"
| "replace_tzinfo_utc (Aware d) = d"

definition parse_datetime :: "runtime \<Rightarrow> timeval option \<Rightarrow> datetime \<Rightarrow> datetime" where
  "parse_datetime R val dflt =
     (case val of
        Some (TDatetime d) \<Rightarrow> replace_tzinfo_utc d
      | Some (TStr s) \<Rightarrow>
          (let candidate = strip R s;
               candidate = (if candidate \<noteq> [] \<and> last candidate = CHR ''Z''
                            then butlast candidate @ ''+00:00'' else candidate)
           in case fromisoformat R candidate of
                Some parsed \<Rightarrow> replace_tzinfo_utc parsed
              | None \<Rightarrow> dflt)
      | None \<Rightarrow> dflt)"

definition merge_unique_strings :: "runtime \<Rightarrow> string list \<Rightarrow> string list \<Rightarrow> string list" where
  "merge_unique_strings R a b =
     fold (\<lambda>item merged.
             let text = strip R item
             in if text \<noteq> [] \<and> text \<notin> set merged then merged @ [text] else merged)
       (a @ b) []"

text \<open>
  A \<open>dict\<close> keeps its keys in insertion order; assigning to a key that is present keeps
  the key's place.
\<close>

fun dict_set :: "'k \<Rightarrow> 'v \<Rightarrow> ('k \<times> 'v) list \<Rightarrow> ('k \<times> 'v) list" where
  "dict_set k v [] = [(k, v)]"
| "dict_set k v (p # ps) = (if fst p = k then (k, v) # ps else p # dict_set k v ps)"

definition dict_get :: "('k \<times> 'v) list \<Rightarrow> 'k \<Rightarrow> 'v \<Rightarrow> 'v" where
  "dict_get d k dflt = (case map_of d k of Some v \<Rightarrow> v | None \<Rightarrow> dflt)"

definition normalize_word_family ::
  "runtime \<Rightarrow> (string \<times> string list) list \<Rightarrow> (string \<times> string list) list" where
  "normalize_word_family R data =
     fold (\<lambda>(key, vals) out.
             let role = lower R (strip R key)
             in if role = [] then out else dict_set role (merge_unique_strings R vals []) out)
       data []"

definition merge_word_family ::
  "runtime \<Rightarrow> (string \<times> string list) list \<Rightarrow> (string \<times> string list) list
   \<Rightarrow> (string \<times> string list) list" where
  "merge_word_family R left right =
     fold (\<lambda>(role, vals) merged.
             dict_set role (merge_unique_strings R (dict_get merged role []) vals) merged)
       (normalize_word_family R right) (normalize_word_family R left)"

definition log_dedup_hash :: "runtime \<Rightarrow> log_doc \<Rightarrow> string" where
  "log_dedup_hash R lg =
     stable_hash R
       (PDict [(''vocabId'', PStr (ObjectId_str R (log_vocabId lg))),
               (''createdAt'', PStr (isoformat R (log_createdAt lg))),
               (''grade'', PInt (log_grade lg)),
               (''mode'', PStr (log_mode lg)),
               (''questionType'', PStr (log_questionType lg))])"

definition safe_min_datetime :: "datetime option \<Rightarrow> datetime option \<Rightarrow> datetime \<Rightarrow> datetime" where
  "safe_min_datetime left right fallback =
     (case left of
        None \<Rightarrow> (case right of None \<Rightarrow> fallback | Some r \<Rightarrow> r)
      | Some l \<Rightarrow> (case right of None \<Rightarrow> l | Some r \<Rightarrow> datetime_min l r))"

definition safe_max_datetime :: "datetime option \<Rightarrow> datetime option \<Rightarrow> datetime option" where
  "safe_max_datetime left right =
     (case left of
        None \<Rightarrow> right
      | Some l \<Rightarrow> (case right of None \<Rightarrow> Some l | Some r \<Rightarrow> Some (datetime_max l r)))"

subsection \<open>Coercion of one incoming card\<close>

definition incoming_term_norm :: "runtime \<Rightarrow> vocab_in \<Rightarrow> string" where
  "incoming_term_norm R incoming =
     normalize_term R (str_or (raw_termNormalized incoming) (str_or (raw_term incoming) []))"

definition int_or :: "int option \<Rightarrow> int \<Rightarrow> int" where
  "int_or a dflt = (case a of Some n \<Rightarrow> n | None \<Rightarrow> dflt)"

definition float_or :: "real option \<Rightarrow> real \<Rightarrow> real" where
  "float_or a dflt = (case a of Some x \<Rightarrow> x | None \<Rightarrow> dflt)"

definition incoming_doc :: "runtime \<Rightarrow> datetime \<Rightarrow> vocab_in \<Rightarrow> vocab_fields" where
  "incoming_doc R now incoming =
     (let term_norm = incoming_term_norm R incoming;
          incoming_updated = parse_datetime R (raw_updatedAt incoming) now;
          incoming_created = parse_datetime R (raw_createdAt incoming) now
      in \<lparr>term' = str_or (raw_term incoming) term_norm,
          termNormalized = term_norm,
          meanings = merge_unique_strings R (list_or_empty (raw_meanings incoming)) [],
          ipa = map_option (strip R) (raw_ipa incoming),
          exampleEn = or_None (raw_exampleEn incoming),
          exampleVi = or_None (raw_exampleVi incoming),
          mnemonic = or_None (raw_mnemonic incoming),
          tags = merge_unique_strings R (list_or_empty (raw_tags incoming)) [],
          collocations = merge_unique_strings R (list_or_empty (raw_collocations incoming)) [],
          phrases = merge_unique_strings R (list_or_empty (raw_phrases incoming)) [],
          wordFamily = normalize_word_family R (list_or_empty (raw_wordFamily incoming)),
          topics = merge_unique_strings R (list_or_empty (raw_topics incoming)) [],
          cefrLevel = raw_cefrLevel incoming,
          ieltsBand = raw_ieltsBand incoming,
          createdAt = incoming_created,
          updatedAt = incoming_updated,
          easeFactor = float_or (raw_easeFactor incoming) 2.5,
          intervalDays = int_or (raw_intervalDays incoming) 0,
          repetitions = int_or (raw_repetitions incoming) 0,
          lapses = int_or (raw_lapses incoming) 0,
          dueAt = parse_datetime R (raw_dueAt incoming) now,
          lastReviewedAt =
            (if time_truthy (raw_lastReviewedAt incoming)
             then Some (parse_datetime R (raw_lastReviewedAt incoming) now) else None),
          readdCount = int_or (raw_readdCount incoming) 0,
          lastReaddAt =
            (if time_truthy (raw_lastReaddAt incoming)
             then Some (parse_datetime R (raw_lastReaddAt incoming) now) else None)\<rparr>)"

subsection \<open>Merging an incoming card into the local card\<close>

definition text_conflict :: "string option \<Rightarrow> string option \<Rightarrow> nat" where
  "text_conflict existing_value incoming_value =
     (if opt_truthy existing_value \<and> opt_truthy incoming_value \<and> existing_value \<noteq> incoming_value
      then 1 else 0)"

definition text_adopt :: "string option \<Rightarrow> string option \<Rightarrow> string option" where
  "text_adopt existing_value incoming_value =
     (if opt_truthy incoming_value then incoming_value else existing_value)"

text \<open>
  \<open>merge_vocab\<close> is the body of the loop of \<open>import_payload\<close> from \<open>merged = dict(existing)\<close>
  to the last assignment to \<open>merged\<close>; it returns \<open>merged\<close> without its \<open>_id\<close> and the number
  of conflicts it counted.
\<close>

definition merge_vocab ::
  "runtime \<Rightarrow> datetime \<Rightarrow> vocab_fields \<Rightarrow> vocab_fields \<Rightarrow> vocab_fields \<times> nat" where
  "merge_vocab R now existing inc_doc =
     (let incoming_updated = updatedAt inc_doc;
          incoming_created = createdAt inc_doc;
          merged = existing
            \<lparr>meanings := merge_unique_strings R (meanings existing) (meanings inc_doc),
             tags := merge_unique_strings R (tags existing) (tags inc_doc),
             collocations := merge_unique_strings R (collocations existing) (collocations inc_doc),
             phrases := merge_unique_strings R (phrases existing) (phrases inc_doc),
             topics := merge_unique_strings R (topics existing) (topics inc_doc),
             wordFamily := merge_word_family R (wordFamily existing) (wordFamily inc_doc),
             cefrLevel := (if opt_truthy (cefrLevel inc_doc) then cefrLevel inc_doc
                           else cefrLevel existing),
             ieltsBand := (case ieltsBand inc_doc of Some b \<Rightarrow> Some b | None \<Rightarrow> ieltsBand existing)\<rparr>;
          existing_updated = parse_datetime R (Some (TDatetime (Aware (updatedAt existing)))) now;
          newer = (instant incoming_updated \<ge> instant existing_updated);
          n = (if newer
               then text_conflict (Some (term' existing)) (Some (term' inc_doc))
                    + text_conflict (ipa existing) (ipa inc_doc)
                    + text_conflict (exampleEn existing) (exampleEn inc_doc)
                    + text_conflict (exampleVi existing) (exampleVi inc_doc)
                    + text_conflict (mnemonic existing) (mnemonic inc_doc)
               else 0);
          merged = (if newer
                    then merged
                      \<lparr>term' := (if term' inc_doc \<noteq> [] then term' inc_doc else term' existing),
                       ipa := text_adopt (ipa existing) (ipa inc_doc),
                       exampleEn := text_adopt (exampleEn existing) (exampleEn inc_doc),
                       exampleVi := text_adopt (exampleVi existing) (exampleVi inc_doc),
                       mnemonic := text_adopt (mnemonic existing) (mnemonic inc_doc)\<rparr>
                    else merged);
          merged = merged
            \<lparr>createdAt :=
               datetime_min (parse_datetime R (Some (TDatetime (Aware (createdAt existing)))) now)
                 incoming_created,
             updatedAt := datetime_max existing_updated incoming_updated,
             repetitions := min (repetitions existing) (repetitions inc_doc),
             intervalDays := min (intervalDays existing) (intervalDays inc_doc),
             easeFactor := min (easeFactor existing) (easeFactor inc_doc),
             dueAt := safe_min_datetime (Some (dueAt existing)) (Some (dueAt inc_doc)) now,
             lapses := max (lapses existing) (lapses inc_doc),
             readdCount := max (readdCount existing) (readdCount inc_doc),
             lastReviewedAt := safe_max_datetime (lastReviewedAt existing) (lastReviewedAt inc_doc),
             lastReaddAt := safe_max_datetime (lastReaddAt existing) (lastReaddAt inc_doc)\<rparr>
      in (merged, n))"

subsection \<open>Serialization\<close>

definition opt_str :: "string option \<Rightarrow> pyval" where
  "opt_str a = (case a of Some s \<Rightarrow> PStr s | None \<Rightarrow> PNone)"

definition opt_time :: "runtime \<Rightarrow> datetime option \<Rightarrow> pyval" where
  "opt_time R a = (case a of Some d \<Rightarrow> PStr (isoformat R d) | None \<Rightarrow> PNone)"

definition str_list :: "string list \<Rightarrow> pyval" where
  "str_list xs = PList (map PStr xs)"

text \<open>
  \<open>serialize_doc\<close> is \<open>_serialize_doc\<close> on a card without its \<open>_id\<close>: a \<open>datetime\<close> becomes
  its ISO text, every other value stays.
\<close>

definition serialize_doc :: "runtime \<Rightarrow> vocab_fields \<Rightarrow> pyval" where
  "serialize_doc R f =
     PDict [(''term'', PStr (term' f)),
            (''termNormalized'', PStr (termNormalized f)),
            (''meanings'', str_list (meanings f)),
            (''ipa'', opt_str (ipa f)),
            (''exampleEn'', opt_str (exampleEn f)),
            (''exampleVi'', opt_str (exampleVi f)),
            (''mnemonic'', opt_str (mnemonic f)),
            (''tags'', str_list (tags f)),
            (''collocations'', str_list (collocations f)),
            (''phrases'', str_list (phrases f)),
            (''wordFamily'', PDict (map (\<lambda>(role, vals). (role, str_list vals)) (wordFamily f))),
            (''topics'', str_list (topics f)),
            (''cefrLevel'', opt_str (cefrLevel f)),
            (''ieltsBand'', (case ieltsBand f of Some b \<Rightarrow> PFloat b | None \<Rightarrow> PNone)),
            (''createdAt'', PStr (isoformat R (createdAt f))),
            (''updatedAt'', PStr (isoformat R (updatedAt f))),
            (''easeFactor'', PFloat (easeFactor f)),
            (''intervalDays'', PInt (intervalDays f)),
            (''repetitions'', PInt (repetitions f)),
            (''lapses'', PInt (lapses f)),
            (''dueAt'', PStr (isoformat R (dueAt f))),
            (''lastReviewedAt'', opt_time R (lastReviewedAt f)),
            (''readdCount'', PInt (readdCount f)),
            (''lastReaddAt'', opt_time R (lastReaddAt f))]"

subsection \<open>\<open>import_payload\<close>\<close>

text \<open>The local variables of \<open>import_payload\<close> that the loop over the cards changes.\<close>

record merge_state =
  db_vocabs :: "vocab_doc list"
  source_vocab_to_local :: "string \<rightharpoonup> ObjectId"
  added_vocabs :: nat
  updated_vocabs :: nat
  conflict_count :: nat

definition process_vocab :: "runtime \<Rightarrow> datetime \<Rightarrow> vocab_in \<Rightarrow> merge_state \<Rightarrow> merge_state" where
  "process_vocab R now incoming s =
     (let term_norm = incoming_term_norm R incoming
      in if term_norm = [] then s
         else
           let source_vocab_id = str_or (raw_id incoming) [];
               inc_doc = incoming_doc R now incoming
           in case find_one_by_term (db_vocabs s) term_norm of
                None \<Rightarrow>
                  s\<lparr>db_vocabs := insert_one inc_doc (db_vocabs s),
                    source_vocab_to_local :=
                      (source_vocab_to_local s)(source_vocab_id \<mapsto> inserted_id (db_vocabs s)),
                    added_vocabs := added_vocabs s + 1\<rparr>
              | Some existing \<Rightarrow>
                  let (merged, n) = merge_vocab R now (doc_fields existing) inc_doc;
                      changed = (stable_hash R (serialize_doc R (doc_fields existing))
                                 \<noteq> stable_hash R (serialize_doc R merged))
                  in s\<lparr>db_vocabs :=
                         (if changed then update_one (doc_id existing) merged (db_vocabs s)
                          else db_vocabs s),
                       source_vocab_to_local :=
                         (source_vocab_to_local s)(source_vocab_id \<mapsto> doc_id existing),
                       updated_vocabs := updated_vocabs s + (if changed then 1 else 0),
                       conflict_count := conflict_count s + n\<rparr>)"

definition resolve_vocab_id ::
  "runtime \<Rightarrow> vocab_doc list \<Rightarrow> (string \<rightharpoonup> ObjectId) \<Rightarrow> string \<Rightarrow> ObjectId option" where
  "resolve_vocab_id R vs m source_vocab_id =
     (case m source_vocab_id of
        Some local_vocab_id \<Rightarrow> Some local_vocab_id
      | None \<Rightarrow>
          if ObjectId_is_valid R source_vocab_id
          then (let candidate = ObjectId_of R source_vocab_id
                in case find_one_by_id vs candidate of
                     Some exists \<Rightarrow> Some candidate
                   | None \<Rightarrow> None)
          else None)"

definition normalized_log :: "runtime \<Rightarrow> datetime \<Rightarrow> ObjectId \<Rightarrow> log_in \<Rightarrow> log_doc" where
  "normalized_log R now local_vocab_id incoming_log =
     \<lparr>log_vocabId = local_vocab_id,
      log_mode = str_or (rawlog_mode incoming_log) ''flip'',
      log_questionType = str_or (rawlog_questionType incoming_log) ''term_to_meaning'',
      log_grade = int_or (rawlog_grade incoming_log) 0,
      log_userAnswer = rawlog_userAnswer incoming_log,
      log_isNearCorrect = rawlog_isNearCorrect incoming_log,
      log_createdAt = parse_datetime R (rawlog_createdAt incoming_log) now\<rparr>"

definition process_log ::
  "runtime \<Rightarrow> datetime \<Rightarrow> vocab_doc list \<Rightarrow> (string \<rightharpoonup> ObjectId) \<Rightarrow> log_in
   \<Rightarrow> string set \<times> log_doc list \<Rightarrow> string set \<times> log_doc list" where
  "process_log R now vs m incoming_log acc =
     (case acc of (existing_hashes, logs_to_insert) \<Rightarrow>
        (case resolve_vocab_id R vs m (str_or (rawlog_vocabId incoming_log) []) of
           None \<Rightarrow> (existing_hashes, logs_to_insert)
         | Some local_vocab_id \<Rightarrow>
             let nlog = normalized_log R now local_vocab_id incoming_log;
                 dedup_key = log_dedup_hash R nlog
             in if dedup_key \<in> existing_hashes then (existing_hashes, logs_to_insert)
                else (insert dedup_key existing_hashes, logs_to_insert @ [nlog])))"

definition log_sort_key :: "runtime \<Rightarrow> log_in \<Rightarrow> string" where
  "log_sort_key R incoming_log =
     (case rawlog_createdAt incoming_log of
        Some (TStr s) \<Rightarrow> s
      | Some (TDatetime d) \<Rightarrow> datetime_str R d
      | None \<Rightarrow> [])"

definition event_doc_of :: "runtime \<Rightarrow> datetime \<Rightarrow> event_in \<Rightarrow> event_doc" where
  "event_doc_of R now incoming_event =
     \<lparr>event_type = str_or (rawevent_type incoming_event) ''IMPORT'',
      event_payload =
        (case rawevent_payload incoming_event of
           Some v \<Rightarrow> if pyval_truthy v then v else PDict []
         | None \<Rightarrow> PDict []),
      event_createdAt = parse_datetime R (rawevent_createdAt incoming_event) now\<rparr>"

definition merge_vocabs :: "runtime \<Rightarrow> datetime \<Rightarrow> vocab_doc list \<Rightarrow> vocab_in list \<Rightarrow> merge_state" where
  "merge_vocabs R now vs incoming_vocabs =
     fold (process_vocab R now) (sort_key (incoming_term_norm R) incoming_vocabs)
       \<lparr>db_vocabs = vs, source_vocab_to_local = Map.empty,
        added_vocabs = 0, updated_vocabs = 0, conflict_count = 0\<rparr>"

definition merge_logs ::
  "runtime \<Rightarrow> datetime \<Rightarrow> vocab_doc list \<Rightarrow> (string \<rightharpoonup> ObjectId) \<Rightarrow> log_doc list \<Rightarrow> log_in list
   \<Rightarrow> log_doc list" where
  "merge_logs R now vs m existing_logs incoming_logs =
     snd (fold (process_log R now vs m) (sort_key (log_sort_key R) incoming_logs)
            (set (map (log_dedup_hash R) existing_logs), []))"

definition import_payload :: "runtime \<Rightarrow> datetime \<Rightarrow> store \<Rightarrow> payload \<Rightarrow> store \<times> report" where
  "import_payload R now db p =
     (let s = merge_vocabs R now (vocabs db) (payload_vocabs p);
          logs_to_insert =
            merge_logs R now (db_vocabs s) (source_vocab_to_local s) (review_logs db)
              (payload_review_logs p);
          event_docs = map (event_doc_of R now) (payload_events p);
          rep = \<lparr>addedVocabs = added_vocabs s,
                 updatedVocabs = updated_vocabs s,
                 addedLogs = length logs_to_insert,
                 conflicts = conflict_count s\<rparr>;
          import_event =
            \<lparr>event_type = ''IMPORT'',
             event_payload =
               PDict [(''addedVocabs'', PInt (int (addedVocabs rep))),
                      (''updatedVocabs'', PInt (int (updatedVocabs rep))),
                      (''addedLogs'', PInt (int (addedLogs rep))),
                      (''conflicts'', PInt (int (conflicts rep))),
                      (''sourceSchemaVersion'', PStr (schemaVersion p))],
             event_createdAt = now\<rparr>
      in (\<lparr>vocabs = db_vocabs s,
           review_logs = review_logs db @ logs_to_insert,
           events = events db @ event_docs @ [import_event]\<rparr>,
          rep))"

text \<open>
  A timestamp of a snapshot is well-formed when \<open>_parse_datetime\<close> reads it without
  falling back to its default; a snapshot is valid when the \<open>createdAt\<close> of each of its
  review logs is well-formed, as it is in every snapshot that \<open>export_payload\<close> writes.
\<close>

definition timestamp_ok :: "runtime \<Rightarrow> timeval option \<Rightarrow> bool" where
  "timestamp_ok R val =
     (case val of
        Some (TDatetime d) \<Rightarrow> True
      | Some (TStr s) \<Rightarrow>
          (let candidate = strip R s;
               candidate = (if candidate \<noteq> [] \<and> last candidate = CHR ''Z''
                            then butlast candidate @ ''+00:00'' else candidate)
           in fromisoformat R candidate \<noteq> None)
      | None \<Rightarrow> False)"

definition valid_payload :: "runtime \<Rightarrow> payload \<Rightarrow> bool" where
  "valid_payload R p = list_all (\<lambda>il. timestamp_ok R (rawlog_createdAt il)) (payload_review_logs p)"

subsection \<open>The import route (app/routes/sync.py)\<close>


subsection \<open>\<open>export_payload\<close>\<close>

definition export_time :: "runtime \<Rightarrow> datetime \<Rightarrow> timeval option" where
  "export_time R d = Some (TStr (isoformat R d))"

definition export_vocab :: "runtime \<Rightarrow> vocab_doc \<Rightarrow> vocab_in" where
  "export_vocab R d =
     (let f = doc_fields d
      in \<lparr>raw_id = Some (ObjectId_str R (doc_id d)),
          raw_term = Some (term' f),
          raw_termNormalized = Some (termNormalized f),
          raw_meanings = Some (meanings f),
          raw_ipa = ipa f,
          raw_exampleEn = exampleEn f,
          raw_exampleVi = exampleVi f,
          raw_mnemonic = mnemonic f,
          raw_tags = Some (tags f),
          raw_collocations = Some (collocations f),
          raw_phrases = Some (phrases f),
          raw_wordFamily = Some (wordFamily f),
          raw_topics = Some (topics f),
          raw_cefrLevel = cefrLevel f,
          raw_ieltsBand = ieltsBand f,
          raw_createdAt = export_time R (createdAt f),
          raw_updatedAt = export_time R (updatedAt f),
          raw_easeFactor = Some (easeFactor f),
          raw_intervalDays = Some (intervalDays f),
          raw_repetitions = Some (repetitions f),
          raw_lapses = Some (lapses f),
          raw_dueAt = export_time R (dueAt f),
          raw_lastReviewedAt = map_option (\<lambda>t. TStr (isoformat R t)) (lastReviewedAt f),
          raw_readdCount = Some (readdCount f),
          raw_lastReaddAt = map_option (\<lambda>t. TStr (isoformat R t)) (lastReaddAt f)\<rparr>)"

definition export_log :: "runtime \<Rightarrow> log_doc \<Rightarrow> log_in" where
  "export_log R lg =
     \<lparr>rawlog_vocabId = Some (ObjectId_str R (log_vocabId lg)),
      rawlog_mode = Some (log_mode lg),
      rawlog_questionType = Some (log_questionType lg),
      rawlog_grade = Some (log_grade lg),
      rawlog_userAnswer = log_userAnswer lg,
      rawlog_isNearCorrect = log_isNearCorrect lg,
      rawlog_createdAt = export_time R (log_createdAt lg)\<rparr>"

definition export_event :: "runtime \<Rightarrow> event_doc \<Rightarrow> event_in" where
  "export_event R e =
     \<lparr>rawevent_type = Some (event_type e),
      rawevent_payload = Some (event_payload e),
      rawevent_createdAt = export_time R (event_createdAt e)\<rparr>"

definition export_payload :: "runtime \<Rightarrow> datetime \<Rightarrow> store \<Rightarrow> store \<times> payload" where
  "export_payload R now db =
     (let db' = db\<lparr>events := events db
                   @ [\<lparr>event_type = ''EXPORT'',
                       event_payload = PDict [(''schemaVersion'', PStr ''v1'')],
                       event_createdAt = now\<rparr>]\<rparr>
      in (db',
          \<lparr>schemaVersion = ''v1'',
           exportedAt = now,
           payload_vocabs =
             map (export_vocab R)
               (sort_key (\<lambda>d. termNormalized (doc_fields d))
                  (sort_key (\<lambda>d. instant (createdAt (doc_fields d))) (vocabs db'))),
           payload_review_logs =
             map (export_log R) (sort_key (\<lambda>lg. instant (log_createdAt lg)) (review_logs db')),
           payload_events =
             map (export_event R) (sort_key (\<lambda>e. instant (event_createdAt e)) (events db'))\<rparr>))"

section \<open>The session composer (app/services/session.py, app/utils/time.py)\<close>

definition day_bounds :: "runtime \<Rightarrow> datetime \<Rightarrow> datetime \<times> datetime" where
  "day_bounds R target = (let start = local_midnight R target in (start, plus_days start 1))"

text \<open>
  \<open>get_today_session\<close> reads the clock three times: for \<open>now\<close>, inside \<open>today_bounds\<close> and
  inside \<open>yesterday_bounds\<close>.
\<close>

record clock =
  now_local_1 :: datetime
  now_local_2 :: datetime
  now_local_3 :: datetime

definition today_bounds :: "runtime \<Rightarrow> clock \<Rightarrow> datetime \<times> datetime" where
  "today_bounds R c = day_bounds R (now_local_2 c)"

definition yesterday_bounds :: "runtime \<Rightarrow> clock \<Rightarrow> datetime \<times> datetime" where
  "yesterday_bounds R c = day_bounds R (plus_days (now_local_3 c) (- 1))"

text \<open>
  The queries.  A query compares dates by their instants, filters the collection, sorts
  it (ties keep the order of the collection) and, with \<open>limit(n).to_list(length=n)\<close>, keeps the first \<open>n\<close> documents.  The
  limit is a natural number: the route admits the values 1 to 200.
\<close>

definition in_bounds :: "datetime \<times> datetime \<Rightarrow> datetime \<Rightarrow> bool" where
  "in_bounds b t = (instant (fst b) \<le> instant t \<and> instant t < instant (snd b))"

definition today_new_docs :: "runtime \<Rightarrow> clock \<Rightarrow> store \<Rightarrow> vocab_doc list" where
  "today_new_docs R c db =
     sort_key (\<lambda>d. instant (createdAt (doc_fields d)))
       (filter (\<lambda>d. in_bounds (today_bounds R c) (createdAt (doc_fields d))) (vocabs db))"

definition today_ids :: "runtime \<Rightarrow> clock \<Rightarrow> store \<Rightarrow> ObjectId set" where
  "today_ids R c db = set (map doc_id (today_new_docs R c db))"

definition due_docs :: "runtime \<Rightarrow> clock \<Rightarrow> store \<Rightarrow> nat \<Rightarrow> vocab_doc list" where
  "due_docs R c db limit =
     take limit
       (sort_key (\<lambda>d. instant (dueAt (doc_fields d)))
          (filter (\<lambda>d. instant (dueAt (doc_fields d)) \<le> instant (now_local_1 c)
                       \<and> doc_id d \<notin> today_ids R c db)
             (vocabs db)))"

definition low_grade_ids :: "runtime \<Rightarrow> clock \<Rightarrow> store \<Rightarrow> ObjectId list" where
  "low_grade_ids R c db =
     remdups (map log_vocabId
       (filter (\<lambda>lg. in_bounds (yesterday_bounds R c) (log_createdAt lg) \<and> log_grade lg < 3)
          (review_logs db)))"

definition yesterday_not_mastered_docs :: "runtime \<Rightarrow> clock \<Rightarrow> store \<Rightarrow> nat \<Rightarrow> vocab_doc list" where
  "yesterday_not_mastered_docs R c db limit =
     take limit
       (sort_key (\<lambda>d. map_option instant (lastReviewedAt (doc_fields d)))
          (filter
             (\<lambda>d. (case lastReviewedAt (doc_fields d) of
                      Some t \<Rightarrow> in_bounds (yesterday_bounds R c) t
                    | None \<Rightarrow> False)
                 \<and> doc_id d \<notin> today_ids R c db
                 \<and> (doc_id d \<in> set (low_grade_ids R c db)
                    \<or> readdCount (doc_fields d) > 0
                    \<or> (lapses (doc_fields d) > 0
                       \<and> in_bounds (yesterday_bounds R c) (updatedAt (doc_fields d)))))
             (vocabs db)))"

definition struggle_docs :: "runtime \<Rightarrow> clock \<Rightarrow> store \<Rightarrow> nat \<Rightarrow> vocab_doc list" where
  "struggle_docs R c db limit =
     take limit
       (sort_key (\<lambda>d. (- readdCount (doc_fields d), instant (dueAt (doc_fields d))))
          (filter (\<lambda>d. readdCount (doc_fields d) > 0 \<and> doc_id d \<notin> today_ids R c db)
             (vocabs db)))"

text \<open>
  The nested \<open>for\<close> statements that fill \<open>ordered_review\<close>, an \<open>OrderedDict\<close> keyed by
  \<open>str(doc["_id"])\<close>: the inner loop over one bucket, the outer loop over the buckets,
  each with its \<open>break\<close>.
\<close>

fun add_bucket ::
  "runtime \<Rightarrow> nat \<Rightarrow> vocab_doc list \<Rightarrow> (string \<times> vocab_doc) list \<Rightarrow> (string \<times> vocab_doc) list" where
  "add_bucket R limit [] ordered_review = ordered_review"
| "add_bucket R limit (doc # bucket) ordered_review =
     (let key = ObjectId_str R (doc_id doc)
      in if key \<in> fst ` set ordered_review then add_bucket R limit bucket ordered_review
         else let ordered_review = ordered_review @ [(key, doc)]
              in if length ordered_review \<ge> limit then ordered_review
                 else add_bucket R limit bucket ordered_review)"

fun add_buckets ::
  "runtime \<Rightarrow> nat \<Rightarrow> vocab_doc list list \<Rightarrow> (string \<times> vocab_doc) list
   \<Rightarrow> (string \<times> vocab_doc) list" where
  "add_buckets R limit [] ordered_review = ordered_review"
| "add_buckets R limit (bucket # buckets) ordered_review =
     (let ordered_review = add_bucket R limit bucket ordered_review
      in if length ordered_review \<ge> limit then ordered_review
         else add_buckets R limit buckets ordered_review)"

record session =
  todayNew :: "vocab_doc list"
  review :: "vocab_doc list"

definition get_today_session :: "runtime \<Rightarrow> clock \<Rightarrow> store \<Rightarrow> nat \<Rightarrow> session" where
  "get_today_session R c db limit =
     (let ordered_review =
            add_buckets R limit
              [due_docs R c db limit,
               yesterday_not_mastered_docs R c db limit,
               struggle_docs R c db limit] []
      in \<lparr>todayNew = today_new_docs R c db, review = map snd ordered_review\<rparr>)"

text \<open>
  The review list as the specification words it: the three buckets concatenated in
  priority order, only the first occurrence of each card kept, cut to \<open>limit\<close> entries.
\<close>

definition first_occurrences :: "('a \<Rightarrow> 'k) \<Rightarrow> 'a list \<Rightarrow> 'a list \<Rightarrow> 'a list" where
  "first_occurrences key xs seen =
     fold (\<lambda>x acc. if key x \<in> key ` set acc then acc else acc @ [x]) xs seen"

definition spec_review :: "runtime \<Rightarrow> clock \<Rightarrow> store \<Rightarrow> nat \<Rightarrow> vocab_doc list" where
  "spec_review R c db limit =
     take limit
       (first_occurrences (\<lambda>d. ObjectId_str R (doc_id d))
          (due_docs R c db limit @ yesterday_not_mastered_docs R c db limit
           @ struggle_docs R c db limit) [])"

section \<open>A runtime and data to run the model on\<close>

text \<open>
  A small runtime for evaluating the model: the ASCII character classes; identities and
  instants written in unary (\<open>III\<close> is the naive reading 3, \<open>III+00:00\<close> the instant 3 at
  offset 0, \<open>III+07:00\<close> the instant 3 at offset 7); days cut at multiples of 86400
  seconds; and a serializer that is its own digest.  The theorems below hold for every
  runtime; this one only supplies concrete inputs.
\<close>

definition ascii_lower :: "char \<Rightarrow> char" where
  "ascii_lower c =
     (let n = (of_char c :: nat) in if 65 \<le> n \<and> n \<le> 90 then char_of (n + 32) else c)"

definition unary :: "nat \<Rightarrow> string" where
  "unary n = replicate n CHR ''I''"

definition of_unary :: "string \<Rightarrow> nat option" where
  "of_unary s = (if s \<noteq> [] \<and> list_all (\<lambda>c. c = CHR ''I'') s then Some (length s) else None)"

fun dump_atom :: "pyval \<Rightarrow> string" where
  "dump_atom (PStr s) = s"
| "dump_atom (PInt n) = unary (nat \<bar>n\<bar>)"
| "dump_atom v = ''?''"

definition utc :: "int \<Rightarrow> datetime" where
  "utc t = \<lparr>instant = t, utcoffset = 0\<rparr>"

definition test_fromisoformat :: "string \<Rightarrow> raw_datetime option" where
  "test_fromisoformat s =
     (let digits = takeWhile (\<lambda>c. c = CHR ''I'') s;
          zone = dropWhile (\<lambda>c. c = CHR ''I'') s
      in if digits = [] then None
         else if zone = [] then Some (Naive (int (length digits)))
         else if zone = ''+00:00''
           then Some (Aware \<lparr>instant = int (length digits), utcoffset = 0\<rparr>)
         else if zone = ''+07:00''
           then Some (Aware \<lparr>instant = int (length digits), utcoffset = 7\<rparr>)
         else None)"

definition test_isoformat :: "datetime \<Rightarrow> string" where
  "test_isoformat d =
     unary (nat (instant d)) @ (if utcoffset d = 0 then ''+00:00'' else ''+07:00'')"

definition test_dumps :: "pyval \<Rightarrow> string" where
  "test_dumps v =
     (case v of
        PDict kvs \<Rightarrow> concat (map (\<lambda>(k, x). k @ ''='' @ dump_atom x @ '';'') kvs)
      | x \<Rightarrow> dump_atom x)"

definition test_runtime :: runtime where
  "test_runtime =
     \<lparr>isspace = (\<lambda>c. let n = (of_char c :: nat) in (9 \<le> n \<and> n \<le> 13) \<or> (28 \<le> n \<and> n \<le> 32)),
      isword = (\<lambda>c. let n = (of_char c :: nat)
                     in (48 \<le> n \<and> n \<le> 57) \<or> (65 \<le> n \<and> n \<le> 90) \<or> n = 95
                        \<or> (97 \<le> n \<and> n \<le> 122)),
      lower = map ascii_lower,
      fromisoformat = test_fromisoformat,
      isoformat = test_isoformat,
      datetime_str = (\<lambda>v. case v of Naive wall \<Rightarrow> unary (nat wall) | Aware d \<Rightarrow> test_isoformat d),
      local_midnight = (\<lambda>t. t\<lparr>instant := instant t - instant t mod 86400000000\<rparr>),
      ObjectId_is_valid = (\<lambda>s. of_unary s \<noteq> None),
      ObjectId_of = length,
      ObjectId_str = unary,
      json_dumps = test_dumps,
      sha256_hexdigest = (\<lambda>s. s)\<rparr>"

definition card_fields :: "string \<Rightarrow> int \<Rightarrow> int \<Rightarrow> int \<Rightarrow> vocab_fields" where
  "card_fields t reps lps due =
     \<lparr>term' = t, termNormalized = t, meanings = [''greeting''], ipa = None,
      exampleEn = None, exampleVi = None, mnemonic = None, tags = [], collocations = [],
      phrases = [], wordFamily = [], topics = [], cefrLevel = None, ieltsBand = None,
      createdAt = utc 1, updatedAt = utc 2, easeFactor = 2.5, intervalDays = 6,
      repetitions = reps, lapses = lps, dueAt = utc due, lastReviewedAt = Some (utc 2),
      readdCount = 0, lastReaddAt = None\<rparr>"

definition empty_vocab_in :: vocab_in where
  "empty_vocab_in =
     \<lparr>raw_id = None, raw_term = None, raw_termNormalized = None, raw_meanings = None,
      raw_ipa = None, raw_exampleEn = None, raw_exampleVi = None, raw_mnemonic = None,
      raw_tags = None, raw_collocations = None, raw_phrases = None, raw_wordFamily = None,
      raw_topics = None, raw_cefrLevel = None, raw_ieltsBand = None, raw_createdAt = None,
      raw_updatedAt = None, raw_easeFactor = None, raw_intervalDays = None,
      raw_repetitions = None, raw_lapses = None, raw_dueAt = None,
      raw_lastReviewedAt = None, raw_readdCount = None, raw_lastReaddAt = None\<rparr>"

text \<open>
  A local store with the card \<open>hello\<close> (3 repetitions, no lapse, due at 10) and one review
  log of it, and a snapshot from another device with the same card (1 repetition, 1
  lapse, due at 2), a new card \<open>world\<close>, the same review log and one more.
\<close>

definition local_card :: vocab_doc where
  "local_card = \<lparr>doc_id = 1, doc_fields = card_fields ''hello'' 3 0 10\<rparr>"

definition local_log :: log_doc where
  "local_log =
     \<lparr>log_vocabId = 1, log_mode = ''flip'', log_questionType = ''term_to_meaning'',
      log_grade = 4, log_userAnswer = None, log_isNearCorrect = None,
      log_createdAt = utc 2\<rparr>"

definition local_store :: store where
  "local_store = \<lparr>vocabs = [local_card], review_logs = [local_log], events = []\<rparr>"

definition incoming_hello :: vocab_in where
  "incoming_hello =
     empty_vocab_in
       \<lparr>raw_id := Some ''IIIIIII'', raw_term := Some ''Hello'',
        raw_termNormalized := Some ''hello'', raw_createdAt := Some (TStr ''I''),
        raw_updatedAt := Some (TStr ''III''), raw_easeFactor := Some 2.3,
        raw_intervalDays := Some 1, raw_repetitions := Some 1, raw_lapses := Some 1,
        raw_dueAt := Some (TStr ''IIZ''), raw_lastReviewedAt := Some (TStr ''III+00:00'')\<rparr>"


definition incoming_log_at :: "string \<Rightarrow> int \<Rightarrow> string \<Rightarrow> log_in" where
  "incoming_log_at src g t =
     \<lparr>rawlog_vocabId = Some src, rawlog_mode = Some ''flip'',
      rawlog_questionType = Some ''term_to_meaning'', rawlog_grade = Some g,
      rawlog_userAnswer = None, rawlog_isNearCorrect = None,
      rawlog_createdAt = Some (TStr t)\<rparr>"

definition incoming_log :: "string \<Rightarrow> int \<Rightarrow> log_in" where
  "incoming_log src g = incoming_log_at src g ''II''"



text \<open>A snapshot whose only review log has no \<open>createdAt\<close>.\<close>

definition untimed_snapshot :: payload where
  "untimed_snapshot =
     \<lparr>schemaVersion = ''v1'',
      exportedAt = utc 50,
      payload_vocabs = [incoming_hello],
      payload_review_logs = [(incoming_log ''IIIIIII'' 3)\<lparr>rawlog_createdAt := None\<rparr>],
      payload_events = []\<rparr>"

text \<open>
  A snapshot whose only review log has the five fields of the local log, its \<open>createdAt\<close>
  written at another offset.
\<close>

definition offset_snapshot :: payload where
  "offset_snapshot =
     \<lparr>schemaVersion = ''v1'',
      exportedAt = utc 50,
      payload_vocabs = [incoming_hello],
      payload_review_logs = [incoming_log_at ''IIIIIII'' 4 ''II+07:00''],
      payload_events = []\<rparr>"

text \<open>
  A store for the session composer, read at ten microseconds past the start of the third
  day: card 1 is overdue and was re-added twice, card 2 was re-added once and is not yet
  due, card 3 was created today.
\<close>

definition session_card :: "ObjectId \<Rightarrow> string \<Rightarrow> int \<Rightarrow> int \<Rightarrow> int \<Rightarrow> vocab_doc" where
  "session_card i t created due readds =
     \<lparr>doc_id = i,
      doc_fields = (card_fields t 0 0 due)\<lparr>createdAt := utc created, readdCount := readds\<rparr>\<rparr>"

definition session_store :: store where
  "session_store =
     \<lparr>vocabs = [session_card 2 ''beta'' 1 864000000000 1,
                session_card 1 ''alpha'' 1 5 2,
                session_card 3 ''gamma'' 172800000001 172800000001 0],
      review_logs = [], events = []\<rparr>"

definition session_clock :: clock where
  "session_clock =
     \<lparr>now_local_1 = utc 172800000010, now_local_2 = utc 172800000010,
      now_local_3 = utc 172800000010\<rparr>"

section \<open>The SM-2 scheduler (app/services/srs\_sm2.py)\<close>

definition clamp :: "real \<Rightarrow> real \<Rightarrow> real \<Rightarrow> real" where
  "clamp val min_value max_value = max min_value (min max_value val)"

record Sm2State =
  easeFactor :: real
  intervalDays :: int
  repetitions :: int
  lapses :: int

definition initial_state :: "datetime \<Rightarrow> pydict" where
  "initial_state now =
     [(''easeFactor'', PFloat 2.5),
      (''intervalDays'', PInt 0),
      (''repetitions'', PInt 0),
      (''lapses'', PInt 0),
      (''dueAt'', PDatetime now),
      (''lastReviewedAt'', PNone)]"

definition apply_review :: "Sm2State \<Rightarrow> int \<Rightarrow> datetime \<Rightarrow> error + pydict" where
  "apply_review state grade now =
     (if grade < 0 \<or> grade > 5 then Inl ValueError
      else
        let ease = easeFactor state;
            interval = intervalDays state;
            repetitions = repetitions state;
            lapses = lapses state
        in if grade < 3 then
             Inr [(''easeFactor'', PFloat (py_round2 (clamp (ease - 0.2) 1.3 3.0))),
                  (''intervalDays'', PInt 0),
                  (''repetitions'', PInt 0),
                  (''lapses'', PInt (lapses + 1)),
                  (''dueAt'', PDatetime now),
                  (''lastReviewedAt'', PDatetime now)]
           else
             let interval' =
                   (if repetitions = 0 then 1
                    else if repetitions = 1 then 6
                    else max 1 (py_round (of_int interval * ease)));
                 delta = 0.1 - of_int (5 - grade) * (0.08 + of_int (5 - grade) * 0.02)
             in Inr [(''easeFactor'', PFloat (py_round2 (clamp (ease + delta) 1.3 3.0))),
                     (''intervalDays'', PInt interval'),
                     (''repetitions'', PInt (repetitions + 1)),
                     (''lapses'', PInt lapses),
                     (''dueAt'', PDatetime (plus_days now interval')),
                     (''lastReviewedAt'', PDatetime now)])"



subsection \<open>The re-add path of \<open>create_vocab\<close> (app/routes/vocab.py)\<close>






section \<open>Notions used in the proofs\<close>

text \<open>
  A string is \<open>spaced\<close> when each of its whitespace characters is a single space that no
  whitespace follows; a \<open>normal_form\<close> is spaced, unchanged by \<open>lower\<close> character by
  character, and begins and ends with a word character other than the underscore.
\<close>

fun spaced :: "runtime \<Rightarrow> string \<Rightarrow> bool" where
  "spaced R [] = True"
| "spaced R [c] = (isspace R c \<longrightarrow> c = CHR '' '')"
| "spaced R (c # d # cs) =
     ((isspace R c \<longrightarrow> c = CHR '' '' \<and> \<not> isspace R d) \<and> spaced R (d # cs))"

definition normal_form :: "runtime \<Rightarrow> string \<Rightarrow> bool" where
  "normal_form R r \<longleftrightarrow>
     spaced R r \<and> (\<forall>d \<in> set r. lower R [d] = [d])
     \<and> (r = [] \<or> (\<not> punct R (hd r) \<and> \<not> punct R (last r)))"

text \<open>The dictionary \<open>ordered_review\<close> that holds the documents \<open>ds\<close> in this order.\<close>

definition keyed :: "runtime \<Rightarrow> vocab_doc list \<Rightarrow> (string \<times> vocab_doc) list" where
  "keyed R ds = map (\<lambda>d. (ObjectId_str R (doc_id d), d)) ds"








section \<open>Properties of the scheduler\<close>

lemma py_round_mono_lower: "of_int n \<le> x \<Longrightarrow> n \<le> py_round x"
proof -
  assume "of_int n \<le> x"
  then have f: "n \<le> \<lfloor>x\<rfloor>" by (simp add: le_floor_iff)
  then show ?thesis by (auto simp: py_round_def Let_def)
qed

lemma py_round_mono_upper: "x \<le> of_int n \<Longrightarrow> py_round x \<le> n"
proof -
  assume h: "x \<le> of_int n"
  have f: "\<lfloor>x\<rfloor> \<le> n" using h by (simp add: floor_le_iff) 
  show ?thesis
  proof (cases "\<lfloor>x\<rfloor> = n")
    case True
    then have "x = of_int n" using h by linarith
    then show ?thesis by (simp add: py_round_def)
  next
    case False
    then have "\<lfloor>x\<rfloor> + 1 \<le> n" using f by linarith
    then show ?thesis using f by (auto simp: py_round_def Let_def)
  qed
qed

lemma py_round2_bounds:
  assumes "1.3 \<le> x" and "x \<le> 3.0"
  shows "1.3 \<le> py_round2 x \<and> py_round2 x \<le> 3.0"
proof -
  have "of_int 130 \<le> x * 100" using assms by simp
  then have lo: "130 \<le> py_round (x * 100)" by (rule py_round_mono_lower)
  have "x * 100 \<le> of_int 300" using assms by simp
  then have hi: "py_round (x * 100) \<le> 300" by (rule py_round_mono_upper)
  from lo have "(130::real) \<le> of_int (py_round (x * 100))" by linarith
  moreover from hi have "of_int (py_round (x * 100)) \<le> (300::real)" by linarith
  ultimately show ?thesis by (simp add: py_round2_def)
qed

lemma clamp_bounds: "lo \<le> hi \<Longrightarrow> lo \<le> clamp v lo hi \<and> clamp v lo hi \<le> hi"
  by (simp add: clamp_def)


text \<open>
  C5: for every state and every grade from 0 to 5, \<open>apply_review\<close> returns an update
  whose \<open>easeFactor\<close> lies between 1.3 and 3.0.
\<close>

theorem apply_review_ease_in_range:
  assumes "0 \<le> grade" and "grade \<le> 5"
  shows "\<exists>upd e. apply_review state grade now = Inr upd
           \<and> map_of upd ''easeFactor'' = Some (PFloat e) \<and> 1.3 \<le> e \<and> e \<le> 3.0"
proof -
  have b: "\<And>v. 1.3 \<le> py_round2 (clamp v 1.3 3.0) \<and> py_round2 (clamp v 1.3 3.0) \<le> 3.0"
  proof -
    fix v :: real
    have "1.3 \<le> clamp v 1.3 3.0 \<and> clamp v 1.3 3.0 \<le> 3.0"
      by (rule clamp_bounds) simp
    then show "1.3 \<le> py_round2 (clamp v 1.3 3.0) \<and> py_round2 (clamp v 1.3 3.0) \<le> 3.0"
      using py_round2_bounds by blast
  qed
  show ?thesis
  proof (cases "grade < 3")
    case True
    then show ?thesis using assms b by (simp add: apply_review_def Let_def)
  next
    case False
    then show ?thesis using assms b by (simp add: apply_review_def Let_def)
  qed
qed

theorem apply_review_ease_in_range_witness:
  "(0::int) \<le> 1 \<and> (1::int) \<le> 5
   \<and> (\<exists>upd e. apply_review \<lparr>easeFactor = 1.35, intervalDays = 6, repetitions = 2, lapses = 0\<rparr> 1
                    (utc 0)
                  = Inr upd
         \<and> map_of upd ''easeFactor'' = Some (PFloat e) \<and> 1.3 \<le> e \<and> e \<le> 3.0)"
  using apply_review_ease_in_range
          [of 1 "\<lparr>easeFactor = 1.35, intervalDays = 6, repetitions = 2, lapses = 0\<rparr>" "utc 0"]
  by simp









section \<open>Term normalization is idempotent\<close>

lemma rev_dropWhile_split: "x = rev (dropWhile P (rev x)) @ rev (takeWhile P (rev x))"
proof -
  have "x = rev (takeWhile P (rev x) @ dropWhile P (rev x))"
    by (simp only: takeWhile_dropWhile_id rev_rev_ident)
  then show ?thesis by (simp only: rev_append)
qed

lemma strip_where_split: "\<exists>p q. s = p @ strip_where P s @ q"
proof -
  let ?s1 = "dropWhile P s"
  have a: "s = takeWhile P s @ ?s1" by simp
  have b: "?s1 = strip_where P s @ rev (takeWhile P (rev ?s1))"
    unfolding strip_where_def by (rule rev_dropWhile_split)
  from a b have "s = takeWhile P s @ strip_where P s @ rev (takeWhile P (rev ?s1))" by simp
  then show ?thesis by blast
qed

lemma strip_where_last:
  assumes "strip_where P s \<noteq> []"
  shows "\<not> P (last (strip_where P s))"
proof -
  let ?d = "dropWhile P (rev (dropWhile P s))"
  from assms have ne: "?d \<noteq> []" by (simp add: strip_where_def)
  then have "\<not> P (hd ?d)" by (rule hd_dropWhile)
  moreover have "last (rev ?d) = hd ?d" using ne by (simp add: last_rev)
  ultimately show ?thesis by (simp add: strip_where_def)
qed

lemma strip_where_hd:
  assumes "strip_where P s \<noteq> []"
  shows "\<not> P (hd (strip_where P s))"
proof -
  let ?s1 = "dropWhile P s"
  have b: "?s1 = strip_where P s @ rev (takeWhile P (rev ?s1))"
    unfolding strip_where_def by (rule rev_dropWhile_split)
  with assms have "hd ?s1 = hd (strip_where P s)" by (metis hd_append2)
  moreover have "?s1 \<noteq> []" using assms b by (metis append_is_Nil_conv)
  then have "\<not> P (hd ?s1)" by (rule hd_dropWhile)
  ultimately show ?thesis by simp
qed

lemma strip_where_fixed:
  assumes "s = [] \<or> (\<not> P (hd s) \<and> \<not> P (last s))"
  shows "strip_where P s = s"
proof (cases "s = []")
  case True
  then show ?thesis by (simp add: strip_where_def)
next
  case False
  with assms have h: "\<not> P (hd s)" and l: "\<not> P (last s)" by auto
  from False h have a: "dropWhile P s = s" by (cases s) auto
  from False l have "\<not> P (hd (rev s))" by (simp add: hd_rev)
  with False have "dropWhile P (rev s) = rev s" by (cases "rev s") auto
  with a show ?thesis by (simp add: strip_where_def)
qed

lemma set_strip_where: "set (strip_where P s) \<subseteq> set s"
proof -
  obtain p q where "s = p @ strip_where P s @ q" using strip_where_split by blast
  then have "set s = set p \<union> set (strip_where P s) \<union> set q" by (metis set_append Un_assoc)
  then show ?thesis by blast
qed

lemma MULTI_SPACE_sub_Nil: "MULTI_SPACE_sub R s = [] \<longleftrightarrow> s = []"
  by (cases s) auto

lemma MULTI_SPACE_sub_hd:
  "s \<noteq> [] \<Longrightarrow> \<not> isspace R (hd s) \<Longrightarrow> hd (MULTI_SPACE_sub R s) = hd s"
  by (cases s) auto

lemma spaced_Cons:
  "spaced R (c # s) \<longleftrightarrow>
     (isspace R c \<longrightarrow> c = CHR '' '' \<and> (s \<noteq> [] \<longrightarrow> \<not> isspace R (hd s))) \<and> spaced R s"
  by (cases s) auto

lemma spaced_MULTI_SPACE_sub:
  "isspace R CHR '' '' \<Longrightarrow> spaced R (MULTI_SPACE_sub R s)"
proof (induction R s rule: MULTI_SPACE_sub.induct)
  case (1 R)
  then show ?case by simp
next
  case (2 R c cs)
  show ?case
  proof (cases "isspace R c")
    case True
    let ?r = "dropWhile (isspace R) cs"
    have sp: "spaced R (MULTI_SPACE_sub R ?r)" using 2 True by simp
    have "MULTI_SPACE_sub R ?r \<noteq> [] \<longrightarrow> \<not> isspace R (hd (MULTI_SPACE_sub R ?r))"
    proof
      assume "MULTI_SPACE_sub R ?r \<noteq> []"
      then have ne: "?r \<noteq> []" by (simp add: MULTI_SPACE_sub_Nil)
      then have n: "\<not> isspace R (hd ?r)" by (rule hd_dropWhile)
      with ne show "\<not> isspace R (hd (MULTI_SPACE_sub R ?r))"
        by (simp add: MULTI_SPACE_sub_hd)
    qed
    with sp True show ?thesis by (simp add: spaced_Cons)
  next
    case False
    then show ?thesis using 2 by (simp add: spaced_Cons)
  qed
qed

lemma spaced_fixed: "spaced R s \<Longrightarrow> MULTI_SPACE_sub R s = s"
proof (induction R s rule: spaced.induct)
  case (1 R)
  then show ?case by simp
next
  case (2 R c)
  then show ?case by simp
next
  case (3 R c d cs)
  then show ?case by auto
qed

lemma spaced_append: "spaced R (a @ b) \<Longrightarrow> spaced R a \<and> spaced R b"
proof (induction a)
  case Nil
  then show ?case by simp
next
  case (Cons c a)
  then show ?case by (cases a) (auto simp: spaced_Cons)
qed

lemma spaced_strip_where: "spaced R s \<Longrightarrow> spaced R (strip_where P s)"
proof -
  assume h: "spaced R s"
  obtain p q where "s = p @ strip_where P s @ q" using strip_where_split by blast
  with h have "spaced R (p @ strip_where P s @ q)" by simp
  then have "spaced R (strip_where P s @ q)" using spaced_append by blast
  then show ?thesis using spaced_append by blast
qed

lemma set_MULTI_SPACE_sub: "set (MULTI_SPACE_sub R s) \<subseteq> insert CHR '' '' (set s)"
proof (induction R s rule: MULTI_SPACE_sub.induct)
  case (1 R)
  then show ?case by simp
next
  case (2 R c cs)
  have "set (dropWhile (isspace R) cs) \<subseteq> set cs" by (auto dest: set_dropWhileD)
  with 2 show ?case by auto
qed

lemma normal_form_fixed:
  assumes sp: "\<forall>c. isspace R c \<longrightarrow> punct R c"
    and lo: "\<forall>s. (\<forall>d \<in> set s. lower R [d] = [d]) \<longrightarrow> lower R s = s"
    and nf: "normal_form R r"
  shows "normalize_term R r = r"
proof -
  from nf have ends: "r = [] \<or> (\<not> punct R (hd r) \<and> \<not> punct R (last r))"
    by (simp add: normal_form_def)
  with sp have "r = [] \<or> (\<not> isspace R (hd r) \<and> \<not> isspace R (last r))" by blast
  then have a: "strip R r = r" unfolding strip_def by (rule strip_where_fixed)
  from nf have "\<forall>d \<in> set r. lower R [d] = [d]" by (simp add: normal_form_def)
  with lo have b: "lower R r = r" by blast
  from nf have c: "MULTI_SPACE_sub R r = r" by (simp add: normal_form_def spaced_fixed)
  from ends have d: "SURROUNDING_PUNCT_sub R r = r"
    unfolding SURROUNDING_PUNCT_sub_def by (rule strip_where_fixed)
  show ?thesis by (simp add: normalize_term_def a b c d)
qed

lemma normal_form_normalize_term:
  assumes s0: "isspace R CHR '' ''"
    and sp: "\<forall>c. isspace R c \<longrightarrow> punct R c"
    and st: "\<forall>s. \<forall>d \<in> set (lower R s). lower R [d] = [d]"
    and l0: "lower R '' '' = '' ''"
  shows "normal_form R (normalize_term R t)"
proof -
  let ?m = "MULTI_SPACE_sub R (lower R (strip R t))"
  let ?r = "SURROUNDING_PUNCT_sub R ?m"
  have spm: "spaced R ?m" using s0 by (rule spaced_MULTI_SPACE_sub)
  then have spr: "spaced R ?r" unfolding SURROUNDING_PUNCT_sub_def by (rule spaced_strip_where)
  have ends: "?r = [] \<or> (\<not> punct R (hd ?r) \<and> \<not> punct R (last ?r))"
    unfolding SURROUNDING_PUNCT_sub_def using strip_where_hd strip_where_last by blast
  with sp have "?r = [] \<or> (\<not> isspace R (hd ?r) \<and> \<not> isspace R (last ?r))" by blast
  then have a: "strip R ?r = ?r" unfolding strip_def by (rule strip_where_fixed)
  have eq: "normalize_term R t = ?r"
    by (simp add: normalize_term_def spaced_fixed [OF spr] a)
  have "set ?r \<subseteq> set ?m" unfolding SURROUNDING_PUNCT_sub_def by (rule set_strip_where)
  also have "\<dots> \<subseteq> insert CHR '' '' (set (lower R (strip R t)))" by (rule set_MULTI_SPACE_sub)
  finally have sub: "set ?r \<subseteq> insert CHR '' '' (set (lower R (strip R t)))" .
  have stable: "\<forall>d \<in> set ?r. lower R [d] = [d]"
  proof
    fix d assume "d \<in> set ?r"
    with sub have "d = CHR '' '' \<or> d \<in> set (lower R (strip R t))" by blast
    then show "lower R [d] = [d]"
    proof
      assume "d = CHR '' ''"
      with l0 show ?thesis by simp
    next
      assume "d \<in> set (lower R (strip R t))"
      with st show ?thesis by blast
    qed
  qed
  with spr ends eq show ?thesis by (simp add: normal_form_def)
qed

lemma normalize_term_twice:
  assumes "isspace R CHR '' ''"
    and "\<forall>c. isspace R c \<longrightarrow> punct R c"
    and "\<forall>s. \<forall>d \<in> set (lower R s). lower R [d] = [d]"
    and "\<forall>s. (\<forall>d \<in> set s. lower R [d] = [d]) \<longrightarrow> lower R s = s"
    and "lower R '' '' = '' ''"
  shows "normalize_term R (normalize_term R t) = normalize_term R t"
proof -
  have "normal_form R (normalize_term R t)"
    using assms(1) assms(2) assms(3) assms(5) by (rule normal_form_normalize_term)
  with assms(2) assms(4) show ?thesis by (rule normal_form_fixed)
qed

lemma find_one_by_term_member:
  assumes "d \<in> set vs"
  shows "\<exists>d'. find_one_by_term vs (termNormalized (doc_fields d)) = Some d'
               \<and> termNormalized (doc_fields d') = termNormalized (doc_fields d)"
proof (cases "find_one_by_term vs (termNormalized (doc_fields d))")
  case None
  with assms show ?thesis by (auto simp: find_one_by_term_def find_None_iff)
next
  case (Some d')
  then have "termNormalized (doc_fields d') = termNormalized (doc_fields d)"
    by (auto simp: find_one_by_term_def find_Some_iff)
  with Some show ?thesis by simp
qed

text \<open>
  C10: under the facts about the character tables of the Python runtime listed as
  assumptions (the space is whitespace; whitespace is never a word character; the
  characters that \<open>lower\<close> produces are unchanged by \<open>lower\<close>, and so is a string made of
  such characters; \<open>lower\<close> keeps the space), \<open>normalize_term\<close> is idempotent.  In
  particular the key that \<open>import_payload\<close> computes for the exported record of a card
  whose non-empty \<open>termNormalized\<close> is a normalized term is that \<open>termNormalized\<close>, and
  looking it up in a store that holds the card finds a card with that key.
\<close>

theorem normalize_term_idempotent:
  assumes "isspace R CHR '' ''"
    and "\<forall>c. isspace R c \<longrightarrow> punct R c"
    and "\<forall>s. \<forall>d \<in> set (lower R s). lower R [d] = [d]"
    and "\<forall>s. (\<forall>d \<in> set s. lower R [d] = [d]) \<longrightarrow> lower R s = s"
    and "lower R '' '' = '' ''"
  shows "normalize_term R (normalize_term R t) = normalize_term R t
         \<and> (d \<in> set vs \<and> termNormalized (doc_fields d) = normalize_term R t
              \<and> normalize_term R t \<noteq> []
            \<longrightarrow> incoming_term_norm R (export_vocab R d) = termNormalized (doc_fields d)
                \<and> (\<exists>d'. find_one_by_term vs (incoming_term_norm R (export_vocab R d)) = Some d'
                         \<and> termNormalized (doc_fields d') = termNormalized (doc_fields d)))"
proof -
  have idem: "normalize_term R (normalize_term R t) = normalize_term R t"
    using assms by (rule normalize_term_twice)
  have "incoming_term_norm R (export_vocab R d) = termNormalized (doc_fields d)
        \<and> (\<exists>d'. find_one_by_term vs (incoming_term_norm R (export_vocab R d)) = Some d'
                 \<and> termNormalized (doc_fields d') = termNormalized (doc_fields d))"
    if d: "d \<in> set vs" and k: "termNormalized (doc_fields d) = normalize_term R t"
      and ne: "normalize_term R t \<noteq> []"
  proof -
    have "incoming_term_norm R (export_vocab R d) = normalize_term R (normalize_term R t)"
      using k ne by (simp add: incoming_term_norm_def export_vocab_def str_or_def Let_def)
    with idem k have key: "incoming_term_norm R (export_vocab R d) = termNormalized (doc_fields d)"
      by simp
    with find_one_by_term_member [OF d] show ?thesis by simp
  qed
  with idem show ?thesis by blast
qed

lemma ascii_lower_upper:
  assumes "65 \<le> (of_char c :: nat)" and "(of_char c :: nat) \<le> 90"
  shows "(of_char (ascii_lower c) :: nat) = of_char c + 32"
proof -
  have "(of_char (ascii_lower c) :: nat) = (of_char c + 32) mod 256"
    using assms by (simp add: ascii_lower_def)
  with assms show ?thesis by simp
qed

lemma ascii_lower_other:
  "\<not> (65 \<le> (of_char c :: nat) \<and> (of_char c :: nat) \<le> 90) \<Longrightarrow> ascii_lower c = c"
  by (auto simp: ascii_lower_def Let_def)

lemma ascii_lower_idem: "ascii_lower (ascii_lower c) = ascii_lower c"
proof (cases "65 \<le> (of_char c :: nat) \<and> (of_char c :: nat) \<le> 90")
  case True
  then have "(of_char (ascii_lower c) :: nat) = of_char c + 32" by (simp add: ascii_lower_upper)
  with True have "\<not> (65 \<le> (of_char (ascii_lower c) :: nat) \<and> (of_char (ascii_lower c) :: nat) \<le> 90)"
    by simp
  then show ?thesis by (rule ascii_lower_other)
next
  case False
  then show ?thesis by (simp add: ascii_lower_other)
qed

lemma test_runtime_space: "isspace test_runtime CHR '' ''"
  by (simp add: test_runtime_def)

lemma test_runtime_space_punct: "\<forall>c. isspace test_runtime c \<longrightarrow> punct test_runtime c"
  by (auto simp: test_runtime_def punct_def Let_def)

lemma test_runtime_lower_stable:
  "\<forall>s. \<forall>d \<in> set (lower test_runtime s). lower test_runtime [d] = [d]"
  by (auto simp: test_runtime_def ascii_lower_idem)

lemma test_runtime_lower_fixed:
  "\<forall>s. (\<forall>d \<in> set s. lower test_runtime [d] = [d]) \<longrightarrow> lower test_runtime s = s"
  by (auto simp: test_runtime_def intro: map_idI)

lemma test_runtime_lower_space: "lower test_runtime '' '' = '' ''"
  by (simp add: test_runtime_def ascii_lower_def)

theorem normalize_term_idempotent_witness:
  "isspace test_runtime CHR '' '' \<and> lower test_runtime '' '' = '' ''
   \<and> local_card \<in> set (vocabs local_store)
   \<and> termNormalized (doc_fields local_card) = normalize_term test_runtime '' --Hello_! ''
   \<and> normalize_term test_runtime '' --Hello_! '' = ''hello''
   \<and> normalize_term test_runtime (normalize_term test_runtime '' --Hello_! '')
       = normalize_term test_runtime '' --Hello_! ''
   \<and> incoming_term_norm test_runtime (export_vocab test_runtime local_card) = ''hello''
   \<and> (\<exists>d'. find_one_by_term (vocabs local_store)
               (incoming_term_norm test_runtime (export_vocab test_runtime local_card)) = Some d'
            \<and> termNormalized (doc_fields d') = termNormalized (doc_fields local_card))"
proof -
  have ev: "normalize_term test_runtime '' --Hello_! '' = ''hello''" by code_simp
  have mem: "local_card \<in> set (vocabs local_store)" by (simp add: local_store_def)
  have key: "termNormalized (doc_fields local_card) = ''hello''"
    by (simp add: local_card_def card_fields_def)
  have k: "termNormalized (doc_fields local_card) = normalize_term test_runtime '' --Hello_! ''"
    using key ev by simp
  have ne: "normalize_term test_runtime '' --Hello_! '' \<noteq> []" using ev by simp
  note inst = normalize_term_idempotent
      [of test_runtime "'' --Hello_! ''" local_card "vocabs local_store",
       OF test_runtime_space test_runtime_space_punct test_runtime_lower_stable
          test_runtime_lower_fixed test_runtime_lower_space]
  from inst have idem: "normalize_term test_runtime (normalize_term test_runtime '' --Hello_! '')
       = normalize_term test_runtime '' --Hello_! ''" by (rule conjunct1)
  from inst mem k ne have
    r: "incoming_term_norm test_runtime (export_vocab test_runtime local_card)
          = termNormalized (doc_fields local_card)
        \<and> (\<exists>d'. find_one_by_term (vocabs local_store)
               (incoming_term_norm test_runtime (export_vocab test_runtime local_card)) = Some d'
            \<and> termNormalized (doc_fields d') = termNormalized (doc_fields local_card))"
    by blast
  from r key have r1: "incoming_term_norm test_runtime (export_vocab test_runtime local_card)
          = ''hello''" by (simp only:)
  from r have r2: "\<exists>d'. find_one_by_term (vocabs local_store)
               (incoming_term_norm test_runtime (export_vocab test_runtime local_card)) = Some d'
            \<and> termNormalized (doc_fields d') = termNormalized (doc_fields local_card)"
    by (rule conjunct2)
  show ?thesis
    by (intro conjI) (rule test_runtime_space test_runtime_lower_space mem k ev idem r1 r2)+
qed

section \<open>The review list of the session composer\<close>

lemma first_occurrences_prefix: "\<exists>ys. first_occurrences key xs seen = seen @ ys"
  unfolding first_occurrences_def
proof (induction xs arbitrary: seen)
  case Nil
  then show ?case by simp
next
  case (Cons x xs)
  show ?case
  proof (cases "key x \<in> key ` set seen")
    case True
    then show ?thesis using Cons [of seen] by simp
  next
    case False
    from Cons [of "seen @ [x]"] obtain ys where
      "fold (\<lambda>x acc. if key x \<in> key ` set acc then acc else acc @ [x]) xs (seen @ [x])
         = (seen @ [x]) @ ys" by blast
    with False show ?thesis by simp
  qed
qed

lemma first_occurrences_append:
  "first_occurrences key (xs @ ys) seen = first_occurrences key ys (first_occurrences key xs seen)"
  by (simp add: first_occurrences_def)

lemma first_occurrences_Cons:
  "first_occurrences key (x # xs) seen =
     first_occurrences key xs (if key x \<in> key ` set seen then seen else seen @ [x])"
  by (simp add: first_occurrences_def)

lemma first_occurrences_distinct:
  "distinct (map key seen) \<Longrightarrow> distinct (map key (first_occurrences key xs seen))"
proof (induction xs arbitrary: seen)
  case Nil
  then show ?case by (simp add: first_occurrences_def)
next
  case (Cons x xs)
  then show ?case by (simp add: first_occurrences_Cons)
qed

lemma take_first_occurrences_full:
  assumes "limit \<le> length seen"
  shows "take limit (first_occurrences key xs seen) = take limit seen"
proof -
  obtain ys where "first_occurrences key xs seen = seen @ ys"
    using first_occurrences_prefix by blast
  with assms show ?thesis by simp
qed

lemma keyed_keys: "fst ` set (keyed R ds) = (\<lambda>d. ObjectId_str R (doc_id d)) ` set ds"
  by (auto simp: keyed_def image_iff)

lemma add_bucket_spec:
  assumes "length seen < limit"
  shows "add_bucket R limit bucket (keyed R seen) =
           keyed R (take limit (first_occurrences (\<lambda>d. ObjectId_str R (doc_id d)) bucket seen))"
  using assms
proof (induction bucket arbitrary: seen)
  case Nil
  then show ?case by (simp add: first_occurrences_def)
next
  case (Cons doc bucket)
  let ?key = "\<lambda>d. ObjectId_str R (doc_id d)"
  show ?case
  proof (cases "?key doc \<in> ?key ` set seen")
    case True
    then show ?thesis using Cons by (simp add: first_occurrences_Cons keyed_keys)
  next
    case False
    have k: "keyed R seen @ [(?key doc, doc)] = keyed R (seen @ [doc])" by (simp add: keyed_def)
    show ?thesis
    proof (cases "limit \<le> length (seen @ [doc])")
      case True
      then have "take limit (first_occurrences ?key bucket (seen @ [doc])) = take limit (seen @ [doc])"
        by (rule take_first_occurrences_full)
      moreover from True Cons.prems have "take limit (seen @ [doc]) = seen @ [doc]" by simp
      ultimately show ?thesis using False True
        by (simp add: first_occurrences_Cons keyed_keys k del: length_append)
           (simp add: keyed_def)
    next
      case False2: False
      then have "length (seen @ [doc]) < limit" by simp
      then have "add_bucket R limit bucket (keyed R (seen @ [doc])) =
                   keyed R (take limit (first_occurrences ?key bucket (seen @ [doc])))"
        by (rule Cons.IH)
      then show ?thesis using False False2
        by (simp add: first_occurrences_Cons keyed_keys k Let_def del: length_append)
           (simp add: keyed_def)
    qed
  qed
qed


lemma add_buckets_spec:
  assumes "length seen < limit"
  shows "add_buckets R limit buckets (keyed R seen) =
           keyed R (take limit
             (first_occurrences (\<lambda>d. ObjectId_str R (doc_id d)) (concat buckets) seen))"
  using assms
proof (induction buckets arbitrary: seen)
  case Nil
  then show ?case by (simp add: first_occurrences_def)
next
  case (Cons bucket buckets)
  let ?key = "\<lambda>d. ObjectId_str R (doc_id d)"
  let ?F = "first_occurrences ?key bucket seen"
  have step: "add_bucket R limit bucket (keyed R seen) = keyed R (take limit ?F)"
    using Cons.prems by (rule add_bucket_spec)
  have len: "length (keyed R (take limit ?F)) = length (take limit ?F)" by (simp add: keyed_def)
  show ?case
  proof (cases "limit \<le> length (take limit ?F)")
    case True
    then have "limit \<le> length ?F" by simp
    then have "take limit (first_occurrences ?key (concat buckets) ?F) = take limit ?F"
      by (rule take_first_occurrences_full)
    then have "take limit (first_occurrences ?key (concat (bucket # buckets)) seen) = take limit ?F"
      by (simp add: first_occurrences_append)
    with True step len show ?thesis by simp
  next
    case False
    then have short: "length ?F < limit" by simp
    then have full: "take limit ?F = ?F" by simp
    have "add_buckets R limit buckets (keyed R ?F) =
            keyed R (take limit (first_occurrences ?key (concat buckets) ?F))"
      using short by (rule Cons.IH)
    then have "add_buckets R limit buckets (keyed R ?F) =
            keyed R (take limit (first_occurrences ?key (concat (bucket # buckets)) seen))"
      by (simp add: first_occurrences_append)
    with False step len full show ?thesis by simp
  qed
qed

lemma map_snd_keyed: "map snd (keyed R ds) = ds"
  by (simp add: keyed_def comp_def)

lemma review_spec: "review (get_today_session R c db limit) = spec_review R c db limit"
proof (cases "limit = 0")
  case True
  then show ?thesis
    by (simp add: get_today_session_def spec_review_def due_docs_def
        yesterday_not_mastered_docs_def struggle_docs_def)
next
  case False
  then have "length ([] :: vocab_doc list) < limit" by simp
  then have "add_buckets R limit
               [due_docs R c db limit, yesterday_not_mastered_docs R c db limit,
                struggle_docs R c db limit] (keyed R []) =
             keyed R (take limit (first_occurrences (\<lambda>d. ObjectId_str R (doc_id d))
               (concat [due_docs R c db limit, yesterday_not_mastered_docs R c db limit,
                        struggle_docs R c db limit]) []))"
    by (rule add_buckets_spec)
  then show ?thesis
    by (simp add: get_today_session_def spec_review_def map_snd_keyed keyed_def [of R "[]"])
qed

lemma spec_review_distinct: "distinct (map doc_id (spec_review R c db limit))"
proof -
  let ?key = "\<lambda>d. ObjectId_str R (doc_id d)"
  let ?all = "due_docs R c db limit @ yesterday_not_mastered_docs R c db limit
                @ struggle_docs R c db limit"
  have "distinct (map ?key (first_occurrences ?key ?all []))"
    by (rule first_occurrences_distinct) simp
  then have "distinct (map ?key (spec_review R c db limit))"
    unfolding spec_review_def by (simp add: distinct_take take_map [symmetric] del: take_map)
  moreover have "map ?key (spec_review R c db limit)
                   = map (ObjectId_str R) (map doc_id (spec_review R c db limit))"
    by simp
  ultimately show ?thesis by (metis distinct_map)
qed

text \<open>
  C8: for every store, clock and limit, the review list has at most \<open>limit\<close> entries, holds
  no card twice, and is \<open>spec_review\<close>: the due, yesterday-not-mastered and struggle
  buckets concatenated in that order, first occurrences only, cut to \<open>limit\<close> entries.
\<close>

theorem review_list_bounded_distinct:
  "length (review (get_today_session R c db limit)) \<le> limit
   \<and> distinct (map doc_id (review (get_today_session R c db limit)))
   \<and> review (get_today_session R c db limit) = spec_review R c db limit"
proof -
  have eq: "review (get_today_session R c db limit) = spec_review R c db limit"
    by (rule review_spec)
  have "length (spec_review R c db limit) \<le> limit" by (simp add: spec_review_def)
  moreover have "distinct (map doc_id (spec_review R c db limit))" by (rule spec_review_distinct)
  ultimately show ?thesis using eq by simp
qed

theorem review_list_bounded_distinct_witness:
  "review (get_today_session test_runtime session_clock session_store 5)
     = [session_card 1 ''alpha'' 1 5 2, session_card 2 ''beta'' 1 864000000000 1]
   \<and> review (get_today_session test_runtime session_clock session_store 1)
     = [session_card 1 ''alpha'' 1 5 2]
   \<and> length (review (get_today_session test_runtime session_clock session_store 1)) \<le> 1
   \<and> distinct (map doc_id (review (get_today_session test_runtime session_clock session_store 5)))
   \<and> spec_review test_runtime session_clock session_store 5
     = [session_card 1 ''alpha'' 1 5 2, session_card 2 ''beta'' 1 864000000000 1]"
proof -
  have five: "review (get_today_session test_runtime session_clock session_store 5)
     = [session_card 1 ''alpha'' 1 5 2, session_card 2 ''beta'' 1 864000000000 1]"
    by code_simp
  have one: "review (get_today_session test_runtime session_clock session_store 1)
     = [session_card 1 ''alpha'' 1 5 2]"
    by code_simp
  note at5 = review_list_bounded_distinct [of test_runtime session_clock session_store 5]
  note at1 = review_list_bounded_distinct [of test_runtime session_clock session_store 1]
  from at1 have len: "length (review (get_today_session test_runtime session_clock session_store 1)) \<le> 1"
    by (rule conjunct1)
  from at5 have dist:
    "distinct (map doc_id (review (get_today_session test_runtime session_clock session_store 5)))"
    by blast
  from at5 have "review (get_today_session test_runtime session_clock session_store 5)
                   = spec_review test_runtime session_clock session_store 5" by blast
  with five have spec: "spec_review test_runtime session_clock session_store 5
     = [session_card 1 ''alpha'' 1 5 2, session_card 2 ''beta'' 1 864000000000 1]"
    by (simp only:)
  show ?thesis
    by (intro conjI) (rule five one len dist spec)+
qed

section \<open>Properties of the sync merge engine\<close>








subsection \<open>Identities and keys of the stored cards\<close>















subsection \<open>The loop on keys\<close>









subsection \<open>The loop over the incoming logs\<close>




















text \<open>
  The hypothesis on the timestamps is needed: a review log without \<open>createdAt\<close> is stored
  with the time of the import, so a later import of the same snapshot gives it another
  fingerprint and stores it again.
\<close>

lemma import_repeats_untimed_log:
  "\<not> valid_payload test_runtime untimed_snapshot
   \<and> addedLogs (snd (import_payload test_runtime (utc 200)
        (fst (import_payload test_runtime (utc 100) local_store untimed_snapshot)) untimed_snapshot)) = 1"
  by code_simp

text \<open>
  The fingerprint is taken over the ISO text of \<open>createdAt\<close>, so the same instant written
  at another offset is another fingerprint: such a log is stored beside the local one.
\<close>

lemma review_log_offset_in_fingerprint:
  "instant (log_createdAt (normalized_log test_runtime (utc 100) 1
              (incoming_log_at ''IIIIIII'' 4 ''II+07:00''))) = instant (log_createdAt local_log)
   \<and> addedLogs (snd (import_payload test_runtime (utc 100) local_store offset_snapshot)) = 1"
  by code_simp

end
